theory Spec2Isabelle
  imports Complex_Main "HOL-Library.Char_ord" "HOL-Library.List_Lexorder"
begin

section \<open>Python strings and numbers used by the two modules\<close>

text \<open>
  A Python \<open>str\<close> is modelled as a \<^typ>\<open>string\<close>; a \<^typ>\<open>char\<close> stands for one code
  point below 256. The order on strings is the lexicographic order by code point, which
  is how Python compares \<open>str\<close> values.

  The segment times are Python floats. They are modelled as exact real numbers: \<open>//\<close> is
  the floor of the quotient, \<open>%\<close> the remainder with the sign of the divisor, and
  \<open>int\<close> truncates towards zero. On the values \<open>3725.5\<close> and \<open>0\<close> every intermediate
  result of \<open>format_time_srt\<close> is a binary fraction that a float holds exactly, so the
  model and the float computation agree there.
\<close>

definition py_floordiv :: "real \<Rightarrow> real \<Rightarrow> real" where
  "py_floordiv x y = of_int \<lfloor>x / y\<rfloor>"

definition py_mod :: "real \<Rightarrow> real \<Rightarrow> real" where
  "py_mod x y = x - of_int \<lfloor>x / y\<rfloor> * y"

definition py_int :: "real \<Rightarrow> int" where
  "py_int x = (if 0 \<le> x then \<lfloor>x\<rfloor> else \<lceil>x\<rceil>)"

definition digit_char :: "nat \<Rightarrow> char" where
  "digit_char d = char_of (48 + d)"

function str_nat :: "nat \<Rightarrow> string" where
  "str_nat n = (if n < 10 then [digit_char n] else str_nat (n div 10) @ [digit_char (n mod 10)])"
  by pat_completeness auto
termination
  by (relation "measure (\<lambda>n. n)") auto

declare str_nat.simps [simp del]

text \<open>\<open>str(i)\<close> and the \<open>{i}\<close> of an f-string, for an integer.\<close>

definition str_int :: "int \<Rightarrow> string" where
  "str_int i = (if i < 0 then CHR ''-'' # str_nat (nat (- i)) else str_nat (nat i))"

text \<open>
  The format specification \<open>0wd\<close> (\<open>{hours:02d}\<close>, \<open>{millisecs:03d}\<close>): zeros are
  inserted after the sign until the whole text has \<open>w\<close> characters; longer numbers are
  not cut.
\<close>

definition zfill_digits :: "nat \<Rightarrow> string \<Rightarrow> string" where
  "zfill_digits w ds = replicate (w - length ds) CHR ''0'' @ ds"

definition format_0d :: "nat \<Rightarrow> int \<Rightarrow> string" where
  "format_0d w i =
     (if i < 0 then CHR ''-'' # zfill_digits (w - 1) (str_nat (nat (- i)))
      else zfill_digits w (str_nat (nat i)))"

text \<open>
  \<open>str.isspace\<close> on the code points below 256: tab to carriage return, the four
  separators 28 to 31, the space, NEL (133) and the no-break space (160).
\<close>

definition isspace :: "char \<Rightarrow> bool" where
  "isspace c = (let n = (of_char c :: nat) in
     (9 \<le> n \<and> n \<le> 13) \<or> (28 \<le> n \<and> n \<le> 32) \<or> n = 133 \<or> n = 160)"

definition strip :: "string \<Rightarrow> string" where
  "strip s = rev (dropWhile isspace (rev (dropWhile isspace s)))"

text \<open>\<open>sep.join(parts)\<close>.\<close>

fun str_join :: "string \<Rightarrow> string list \<Rightarrow> string" where
  "str_join sep [] = []"
| "str_join sep [x] = x"
| "str_join sep (x # y # ys) = x @ sep @ str_join sep (y # ys)"

section \<open>The transcription record\<close>

text \<open>
  The dictionary returned by the recognition model: the full text and the list of
  segments, each with its start time, end time and text. The keys are always present,
  so the dictionary is never empty and the test \<open>if not transcription_result\<close> of
  \<open>process_video\<close> fails only for \<open>None\<close>.
\<close>

record segment =
  seg_start :: real
  seg_end :: real
  seg_text :: string

record transcription =
  tr_text :: string
  tr_segments :: "segment list"

section \<open>batch\_process.py: the SRT time format and the SRT entries\<close>

definition format_time_srt :: "real \<Rightarrow> string" where
  "format_time_srt seconds =
     (let hours = py_int (py_floordiv seconds 3600);
          minutes = py_int (py_floordiv (py_mod seconds 3600) 60);
          secs = py_int (py_mod seconds 60);
          millisecs = py_int (py_mod seconds 1 * 1000)
      in format_0d 2 hours @ '':'' @ format_0d 2 minutes @ '':'' @ format_0d 2 secs
           @ '','' @ format_0d 3 millisecs)"

text \<open>
  The loop \<open>for i, segment in enumerate(segments, 1)\<close> of \<open>generate_srt_file\<close>: the first
  argument is the value of \<open>i\<close> for the head of the list, the result is \<open>srt_content\<close>.
\<close>

fun srt_content :: "int \<Rightarrow> segment list \<Rightarrow> string list" where
  "srt_content i [] = []"
| "srt_content i (segment # rest) =
     (let start_time = format_time_srt (seg_start segment);
          end_time = format_time_srt (seg_end segment);
          text = strip (seg_text segment)
      in if text \<noteq> []
         then (str_int i @ [CHR 0x0A] @ start_time @ '' --> '' @ end_time @ [CHR 0x0A]
                 @ text @ [CHR 0x0A]) # srt_content (i + 1) rest
         else srt_content (i + 1) rest)"

text \<open>The text that \<open>generate_srt_file\<close> writes to the file.\<close>

definition srt_text :: "transcription \<Rightarrow> string" where
  "srt_text transcription_result = str_join [CHR 0x0A] (srt_content 1 (tr_segments transcription_result))"

section \<open>video\_english\_recognition.py: the same two helpers as methods\<close>

definition VideoEnglishRecognizer_format_time_srt :: "real \<Rightarrow> string" where
  "VideoEnglishRecognizer_format_time_srt seconds =
     (let hours = py_int (py_floordiv seconds 3600);
          minutes = py_int (py_floordiv (py_mod seconds 3600) 60);
          secs = py_int (py_mod seconds 60);
          millisecs = py_int (py_mod seconds 1 * 1000)
      in format_0d 2 hours @ '':'' @ format_0d 2 minutes @ '':'' @ format_0d 2 secs
           @ '','' @ format_0d 3 millisecs)"

fun VideoEnglishRecognizer_srt_content :: "int \<Rightarrow> segment list \<Rightarrow> string list" where
  "VideoEnglishRecognizer_srt_content i [] = []"
| "VideoEnglishRecognizer_srt_content i (segment # rest) =
     (let start_time = VideoEnglishRecognizer_format_time_srt (seg_start segment);
          end_time = VideoEnglishRecognizer_format_time_srt (seg_end segment);
          text = strip (seg_text segment)
      in if text \<noteq> []
         then (str_int i @ [CHR 0x0A] @ start_time @ '' --> '' @ end_time @ [CHR 0x0A]
                 @ text @ [CHR 0x0A]) # VideoEnglishRecognizer_srt_content (i + 1) rest
         else VideoEnglishRecognizer_srt_content (i + 1) rest)"

definition VideoEnglishRecognizer_srt_text :: "transcription \<Rightarrow> string" where
  "VideoEnglishRecognizer_srt_text result =
     str_join [CHR 0x0A] (VideoEnglishRecognizer_srt_content 1 (tr_segments result))"

section \<open>Paths and \<open>str.replace\<close>\<close>

text \<open>
  \<open>os.path.join\<close> with two arguments and \<open>pathlib\<close>'s \<open>name\<close> and \<open>stem\<close>, in their
  POSIX flavour (separator \<open>/\<close>): the name is the last component that is neither empty
  nor \<open>.\<close>; the stem is the name without its last suffix, where a dot at the first or
  at the last position of the name does not start a suffix.
\<close>

definition os_path_join :: "string \<Rightarrow> string \<Rightarrow> string" where
  "os_path_join a b =
     (if take 1 b = ''/'' then b
      else if a = [] \<or> last a = CHR ''/'' then a @ b
      else a @ ''/'' @ b)"

fun split_sep :: "string \<Rightarrow> string list" where
  "split_sep [] = [[]]"
| "split_sep (c # cs) =
     (if c = CHR ''/'' then [] # split_sep cs
      else (case split_sep cs of [] \<Rightarrow> [[c]] | x # xs \<Rightarrow> (c # x) # xs))"

definition path_name :: "string \<Rightarrow> string" where
  "path_name p =
     (let parts = filter (\<lambda>x. x \<noteq> [] \<and> x \<noteq> ''.'') (split_sep p)
      in if parts = [] then [] else last parts)"

text \<open>\<open>s.rfind(c)\<close> for a single character: the last index of \<open>c\<close>, or \<open>-1\<close>.\<close>

definition rfind :: "string \<Rightarrow> char \<Rightarrow> int" where
  "rfind s c =
     (if c \<in> set s then int (length s) - 1 - int (length (takeWhile (\<lambda>x. x \<noteq> c) (rev s)))
      else - 1)"

definition path_stem :: "string \<Rightarrow> string" where
  "path_stem p =
     (let name = path_name p; i = rfind name CHR ''.''
      in if 0 < i \<and> i < int (length name) - 1 then take (nat i) name else name)"

text \<open>
  \<open>s.replace(old, new)\<close>: the occurrences of \<open>old\<close> are replaced from left to right,
  without overlap; an empty \<open>old\<close> matches before every character and at the end.
\<close>

function str_replace :: "string \<Rightarrow> string \<Rightarrow> string \<Rightarrow> string" where
  "str_replace old new [] = (if old = [] then new else [])"
| "str_replace old new (c # cs) =
     (if old = [] then new @ concat (map (\<lambda>x. x # new) (c # cs))
      else if take (length old) (c # cs) = old
      then new @ str_replace old new (drop (length old) (c # cs))
      else c # str_replace old new cs)"
  by pat_completeness auto
termination
  by (relation "measure (\<lambda>(old, new, s). length s)") auto

section \<open>batch\_process.py: file discovery\<close>

text \<open>
  \<open>glob.glob(os.path.join(input_folder, "*" + ext))\<close> for a folder name without
  wildcard characters: of the names that the folder holds (the argument
  \<open>names\<close>, in the order the operating system lists them) it keeps those that end with
  \<open>ext\<close> and do not start with a dot, and joins each to the folder. Names are compared
  case-sensitively, as on a POSIX system.
\<close>

definition endswith :: "string \<Rightarrow> string \<Rightarrow> bool" where
  "endswith s ext = (length ext \<le> length s \<and> drop (length s - length ext) s = ext)"

definition glob_star :: "string \<Rightarrow> string list \<Rightarrow> string \<Rightarrow> string list" where
  "glob_star input_folder names ext =
     map (os_path_join input_folder)
       (filter (\<lambda>n. take 1 n \<noteq> ''.'' \<and> endswith n ext) names)"

text \<open>\<open>str.upper\<close> on the letters \<open>a\<close> to \<open>z\<close>; the extensions hold no other letters.\<close>

definition upper_char :: "char \<Rightarrow> char" where
  "upper_char c =
     (if 97 \<le> (of_char c :: nat) \<and> (of_char c :: nat) \<le> 122
      then char_of ((of_char c :: nat) - 32) else c)"

definition upper :: "string \<Rightarrow> string" where
  "upper s = map upper_char s"

definition video_extensions :: "string list" where
  "video_extensions =
     [''.mp4'', ''.avi'', ''.mov'', ''.mkv'', ''.wmv'', ''.flv'', ''.webm'', ''.m4v'']"

text \<open>The list \<open>video_files\<close> at the end of the loop over the extensions.\<close>

definition globbed_files :: "string \<Rightarrow> string list \<Rightarrow> string list" where
  "globbed_files input_folder names =
     concat (map (\<lambda>ext. glob_star input_folder names ext
                          @ glob_star input_folder names (upper ext)) video_extensions)"

definition get_video_files :: "string \<Rightarrow> string list \<Rightarrow> string list" where
  "get_video_files input_folder names = sort (remdups (globbed_files input_folder names))"

section \<open>The file system, the external collaborators and the console\<close>

text \<open>
  The files are a map from paths to what was last written there. The rendering of
  \<open>json.dump\<close> and of the text report is not looked into: the file content records
  which record was rendered. Directories are not modelled (\<open>os.makedirs\<close> has no effect
  here), and a write either raises before the file is touched or stores the whole
  content.
\<close>

datatype content =
    Video
  | Audio
  | Json_dump transcription
  | Text_report transcription
  | Text string

text \<open>
  The trace records the calls of the external collaborators and the messages printed
  that report a fault, a skip or the deletion of the waveform file; banners and progress
  messages are left out.
\<close>

datatype event =
    Load_model
  | Write_audiofile string string
  | Model_transcribe string
  | Print string

record world =
  files :: "string \<rightharpoonup> content"
  trace :: "event list"

text \<open>
  What the program cannot decide itself is a parameter: the outcome of the decoder probe
  (\<open>Inr\<close> the return code, \<open>Inl\<close> the text of an exception), of importing the recognizer
  module and loading the model with \<open>whisper.load_model("base")\<close>, of the audio
  extraction, of \<open>model.transcribe\<close>, of opening a file for writing and of \<open>os.remove\<close>.
  \<open>Some msg\<close> and \<open>Inl msg\<close> stand for an exception \<open>e\<close> with \<open>str(e) = msg\<close>.
\<close>

record env =
  ffmpeg_version :: "string + int"
  load_model :: "string option"
  write_audiofile :: "string \<Rightarrow> string \<Rightarrow> string option"
  model_transcribe :: "string \<Rightarrow> string + transcription"
  open_w :: "string \<Rightarrow> string option"
  os_remove :: "string \<Rightarrow> string option"

definition print :: "string \<Rightarrow> world \<Rightarrow> world" where
  "print msg w = w\<lparr>trace := trace w @ [Print msg]\<rparr>"

definition os_path_exists :: "world \<Rightarrow> string \<Rightarrow> bool" where
  "os_path_exists w path = (files w path \<noteq> None)"

text \<open>\<open>with open(path, "w") as f: f.write(...)\<close>: \<open>Inl\<close> is the exception.\<close>

definition write_file :: "env \<Rightarrow> string \<Rightarrow> content \<Rightarrow> world \<Rightarrow> string + world" where
  "write_file e path c w =
     (case open_w e path of
        Some msg \<Rightarrow> Inl msg
      | None \<Rightarrow> Inr (w\<lparr>files := (files w)(path \<mapsto> c)\<rparr>))"

section \<open>batch\_process.py: setup\_environment and generate\_srt\_file\<close>


definition generate_srt_file :: "env \<Rightarrow> transcription \<Rightarrow> string \<Rightarrow> world \<Rightarrow> bool \<times> world" where
  "generate_srt_file e transcription_result output_path w =
     (case write_file e output_path (Text (srt_text transcription_result)) w of
        Inr w' \<Rightarrow> (True, w')
      | Inl msg \<Rightarrow> (False, print (''Failed to generate SRT file: '' @ msg) w))"

section \<open>video\_english\_recognition.py: the recognizer's methods\<close>

definition VideoEnglishRecognizer_generate_srt_file ::
  "env \<Rightarrow> transcription \<Rightarrow> string \<Rightarrow> world \<Rightarrow> bool \<times> world" where
  "VideoEnglishRecognizer_generate_srt_file e result srt_path w =
     (case write_file e srt_path (Text (VideoEnglishRecognizer_srt_text result)) w of
        Inr w' \<Rightarrow> (True, w')
      | Inl msg \<Rightarrow> (False, print (''Failed to generate SRT file: '' @ msg) w))"

text \<open>
  \<open>extract_audio_from_video\<close>: \<open>None\<close> for the path asks for the default name. The
  result is the audio path, or \<open>None\<close> when the decoder raised.
\<close>

definition extract_audio_from_video ::
  "env \<Rightarrow> string \<Rightarrow> string option \<Rightarrow> world \<Rightarrow> string option \<times> world" where
  "extract_audio_from_video e video_path audio_path_arg w =
     (let audio_path =
            (case audio_path_arg of
               None \<Rightarrow> str_replace '' '' ''_'' (path_stem video_path) @ ''_audio.wav''
             | Some p \<Rightarrow> p);
          w1 = w\<lparr>trace := trace w @ [Write_audiofile video_path audio_path]\<rparr>
      in case write_audiofile e video_path audio_path of
           None \<Rightarrow> (Some audio_path, w1\<lparr>files := (files w1)(audio_path \<mapsto> Audio)\<rparr>)
         | Some msg \<Rightarrow> (None, print (''Audio extraction failed: '' @ msg) w1))"

text \<open>
  \<open>transcribe_audio\<close> with the language fixed to English. The model is handed the
  absolute form of the path; the outcome is a parameter of the path as given.
\<close>

definition transcribe_audio ::
  "env \<Rightarrow> string \<Rightarrow> world \<Rightarrow> transcription option \<times> world" where
  "transcribe_audio e audio_path w =
     (if \<not> os_path_exists w audio_path
      then (None, print (''Audio file not found: '' @ audio_path) w)
      else
        (let w1 = w\<lparr>trace := trace w @ [Model_transcribe audio_path]\<rparr>
         in case model_transcribe e audio_path of
              Inr result \<Rightarrow> (Some result, w1)
            | Inl msg \<Rightarrow> (None, print (''Transcription failed: '' @ msg) w1)))"

text \<open>
  \<open>save_transcription\<close>: the JSON file, then the SRT file through the method above,
  then the text file, all inside one \<open>try\<close> whose handler prints and returns nothing.
\<close>

definition save_transcription :: "env \<Rightarrow> transcription \<Rightarrow> string \<Rightarrow> world \<Rightarrow> world" where
  "save_transcription e result output_path w =
     (let json_path = str_replace ''.txt'' ''.json'' output_path
      in case write_file e json_path (Json_dump result) w of
           Inl msg \<Rightarrow> print (''Failed to save transcription results: '' @ msg) w
         | Inr w1 \<Rightarrow>
             (let srt_path = str_replace ''_transcription.txt'' ''.srt'' output_path;
                  (srt_success, w2) = VideoEnglishRecognizer_generate_srt_file e result srt_path w1
              in case write_file e output_path (Text_report result) w2 of
                   Inl msg \<Rightarrow> print (''Failed to save transcription results: '' @ msg) w2
                 | Inr w3 \<Rightarrow> w3))"

text \<open>
  The dictionary that \<open>process_video\<close> returns, without the processing time:
  \<open>Succeeded video_path output_path transcription\<close> has \<open>"success": True\<close>,
  \<open>Failed error video_path\<close> has \<open>"success": False\<close>. The function returns \<open>None\<close> when
  the video is missing and when extraction or transcription gave nothing.
\<close>

datatype result =
    Succeeded string string transcription
  | Failed string string

fun success :: "result \<Rightarrow> bool" where
  "success (Succeeded video_path output_path transcription_result) = True"
| "success (Failed error video_path) = False"

definition process_video ::
  "env \<Rightarrow> string \<Rightarrow> string \<Rightarrow> bool \<Rightarrow> world \<Rightarrow> result option \<times> world" where
  "process_video e video_path output_dir clean_audio w =
     (if \<not> os_path_exists w video_path
      then (None, print (''Error: Video file not found - '' @ video_path) w)
      else
        (let video_name = str_replace '' '' ''_'' (path_stem video_path);
             audio_path = os_path_join output_dir (video_name @ ''_audio.wav'');
             output_path = os_path_join output_dir (video_name @ ''_transcription.txt'')
         in case extract_audio_from_video e video_path (Some audio_path) w of
              (None, w1) \<Rightarrow> (None, w1)
            | (Some audio_file, w1) \<Rightarrow>
                if audio_file = [] then (None, w1)
                else
                  (case transcribe_audio e audio_file w1 of
                     (None, w2) \<Rightarrow> (None, w2)
                   | (Some transcription_result, w2) \<Rightarrow>
                       (let w3 = save_transcription e transcription_result output_path w2
                        in if clean_audio \<and> os_path_exists w3 audio_file
                           then
                             (case os_remove e audio_file of
                                Some msg \<Rightarrow>
                                  (Some (Failed msg video_path),
                                   print (''Error occurred while processing video: '' @ msg) w3)
                              | None \<Rightarrow>
                                  (Some (Succeeded video_path output_path transcription_result),
                                   print (''Temporary audio file deleted: '' @ audio_file)
                                     (w3\<lparr>files := (files w3)(audio_file := None)\<rparr>)))
                           else (Some (Succeeded video_path output_path transcription_result), w3)))))"

section \<open>batch\_process.py: process\_single\_video and main\<close>

text \<open>
  \<open>process_single_video\<close>. The import of the recognizer module and the constructor,
  which loads the model again, come first; an exception there, as anywhere in the
  body, is turned into a failure pair by the outer handler. Subscripting the \<open>None\<close>
  that \<open>process_video\<close> may return raises a \<open>TypeError\<close>, caught by the same handler.
\<close>

definition none_not_subscriptable :: string where
  "none_not_subscriptable = [CHR 0x27] @ ''NoneType'' @ [CHR 0x27] @ '' object is not subscriptable''"

definition process_single_video ::
  "env \<Rightarrow> string \<Rightarrow> string \<Rightarrow> world \<Rightarrow> (bool \<times> string) \<times> world" where
  "process_single_video e video_path output_folder w =
     (let w0 = w\<lparr>trace := trace w @ [Load_model]\<rparr>
      in case load_model e of
           Some msg \<Rightarrow> ((False, ''Error processing '' @ path_name video_path @ '': '' @ msg), w0)
         | None \<Rightarrow>
             (let video_name = path_stem video_path;
                  output_file = os_path_join output_folder (video_name @ ''_transcription.txt'');
                  json_file = os_path_join output_folder (video_name @ ''_transcription.json'');
                  srt_file = os_path_join output_folder (video_name @ ''.srt'')
              in if os_path_exists w0 output_file \<and> os_path_exists w0 json_file
                      \<and> os_path_exists w0 srt_file
                 then ((True, ''Already processed: '' @ video_name),
                       print (''Skipping '' @ video_name @ '' (already processed)'') w0)
                 else
                   (case process_video e video_path output_folder True w0 of
                      (None, w1) \<Rightarrow>
                        ((False, ''Error processing '' @ path_name video_path @ '': ''
                                   @ none_not_subscriptable), w1)
                    | (Some (Succeeded vp output_path transcription_result), w1) \<Rightarrow>
                        (case generate_srt_file e transcription_result srt_file w1 of
                           (True, w2) \<Rightarrow>
                             ((True, ''Successfully processed: '' @ video_name
                                       @ '' (TXT, JSON, SRT created)''), w2)
                         | (False, w2) \<Rightarrow>
                             ((True, ''Successfully processed: '' @ video_name
                                       @ '' (TXT, JSON created, SRT failed)''), w2))
                    | (Some (Failed error vp), w1) \<Rightarrow>
                        ((False, ''Failed to process: '' @ video_name @ '' - '' @ error), w1))))"


text \<open>
  What \<open>main\<close> prints in its summary. \<open>main\<close> returns \<open>None\<close> for the summary when it
  stops before the loop: the decoder probe failed, no video was found, or the model
  could not be loaded. The argument \<open>names\<close> is the listing of \<open>input_videos\<close>.
\<close>

record summary =
  results :: "(string \<times> bool \<times> string) list"
  successful :: nat
  failed :: nat


section \<open>Named parts of the two orchestration functions\<close>

text \<open>
  The test \<open>os.path.exists(output_file) and os.path.exists(json_file) and
  os.path.exists(srt_file)\<close> of \<open>process_single_video\<close>, with the three paths as that
  function builds them.
\<close>

definition already_processed :: "world \<Rightarrow> string \<Rightarrow> string \<Rightarrow> bool" where
  "already_processed w output_folder video_path =
     (let video_name = path_stem video_path;
          output_file = os_path_join output_folder (video_name @ ''_transcription.txt'');
          json_file = os_path_join output_folder (video_name @ ''_transcription.json'');
          srt_file = os_path_join output_folder (video_name @ ''.srt'')
      in os_path_exists w output_file \<and> os_path_exists w json_file \<and> os_path_exists w srt_file)"

text \<open>The paths \<open>audio_path\<close> and \<open>output_path\<close> as \<open>process_video\<close> builds them.\<close>

definition audio_path_of :: "string \<Rightarrow> string \<Rightarrow> string" where
  "audio_path_of output_dir video_path =
     os_path_join output_dir (str_replace '' '' ''_'' (path_stem video_path) @ ''_audio.wav'')"

definition output_path_of :: "string \<Rightarrow> string \<Rightarrow> string" where
  "output_path_of output_dir video_path =
     os_path_join output_dir (str_replace '' '' ''_'' (path_stem video_path) @ ''_transcription.txt'')"

text \<open>
  The state in which \<open>process_video\<close> calls \<open>save_transcription\<close>: the waveform file
  is written and the decoder and the model have been called.
\<close>

definition after_transcription :: "world \<Rightarrow> string \<Rightarrow> string \<Rightarrow> world" where
  "after_transcription w video_path audio_path =
     w\<lparr>files := (files w)(audio_path \<mapsto> Audio),
        trace := trace w @ [Write_audiofile video_path audio_path, Model_transcribe audio_path]\<rparr>"

section \<open>Concrete inputs\<close>

text \<open>
  A record of two segments, the first of which is blank; collaborators that all
  succeed, and variants in which exactly one step fails; a folder of two videos, and a
  folder in which the three artifacts of \<open>a.mp4\<close> are present.
\<close>

definition blank_then_hi :: transcription where
  "blank_then_hi = \<lparr>tr_text = '' hi'', tr_segments =
     [\<lparr>seg_start = 0, seg_end = 1, seg_text = ''  ''\<rparr>,
      \<lparr>seg_start = 1, seg_end = 5 / 2, seg_text = '' hi ''\<rparr>]\<rparr>"

definition env_ok :: env where
  "env_ok = \<lparr>ffmpeg_version = Inr 0, load_model = None,
             write_audiofile = (\<lambda>video_path audio_path. None),
             model_transcribe = (\<lambda>audio_path. Inr blank_then_hi),
             open_w = (\<lambda>path. None), os_remove = (\<lambda>path. None)\<rparr>"


definition env_remove_denied :: env where
  "env_remove_denied = env_ok\<lparr>os_remove := (\<lambda>path. Some ''Permission denied'')\<rparr>"

definition env_load_fails :: env where
  "env_load_fails = env_ok\<lparr>load_model := Some ''out of memory''\<rparr>"

definition env_json_denied :: env where
  "env_json_denied = env_ok\<lparr>open_w := (\<lambda>path.
      if path = ''output_transcriptions/a_transcription.json'' then Some ''Permission denied''
      else None)\<rparr>"

definition env_srt_denied :: env where
  "env_srt_denied = env_ok\<lparr>open_w := (\<lambda>path.
      if path = ''output_transcriptions/a.srt'' then Some ''Permission denied'' else None)\<rparr>"

definition world_start :: world where
  "world_start =
     \<lparr>files = [''input_videos/a.mp4'' \<mapsto> Video, ''input_videos/my video.mp4'' \<mapsto> Video],
      trace = []\<rparr>"

definition world_done :: world where
  "world_done =
     \<lparr>files = [''input_videos/a.mp4'' \<mapsto> Video,
               ''output_transcriptions/a_transcription.txt'' \<mapsto> Text_report blank_then_hi,
               ''output_transcriptions/a_transcription.json'' \<mapsto> Json_dump blank_then_hi,
               ''output_transcriptions/a.srt'' \<mapsto> Text (srt_text blank_then_hi)],
      trace = []\<rparr>"


definition world_after_my_video :: world where
  "world_after_my_video =
     snd (process_single_video env_ok ''input_videos/my video.mp4'' ''output_transcriptions''
            world_start)"

definition world_after_json_denied :: world where
  "world_after_json_denied =
     snd (process_single_video env_json_denied ''input_videos/a.mp4'' ''output_transcriptions''
            world_start)"

section \<open>The SRT time format\<close>









lemma format_time_srt_same:
  "VideoEnglishRecognizer_format_time_srt seconds = format_time_srt seconds"
  by (simp add: VideoEnglishRecognizer_format_time_srt_def format_time_srt_def)



section \<open>The two SRT generators\<close>

lemma srt_content_same:
  "VideoEnglishRecognizer_srt_content i segs = srt_content i segs"
  by (induction segs arbitrary: i) (simp_all add: format_time_srt_same Let_def)

lemma srt_text_same: "VideoEnglishRecognizer_srt_text r = srt_text r"
  by (simp add: VideoEnglishRecognizer_srt_text_def srt_text_def srt_content_same)

text \<open>
  C10: the SRT generator of the batch driver and the method of the recognizer, and
  their two time helpers, compute the same: the same time text for every number of
  seconds, and for every record, path and state of the file system the same outcome,
  the same file content and the same messages.
\<close>

theorem srt_generators_agree:
  "VideoEnglishRecognizer_format_time_srt seconds = format_time_srt seconds
   \<and> VideoEnglishRecognizer_srt_text r = srt_text r
   \<and> VideoEnglishRecognizer_generate_srt_file e r path w = generate_srt_file e r path w"
  by (simp add: format_time_srt_same srt_text_same
      VideoEnglishRecognizer_generate_srt_file_def generate_srt_file_def)

lemma length_srt_content:
  "length (srt_content i segs) = length (filter (\<lambda>seg. strip (seg_text seg) \<noteq> []) segs)"
  by (induction segs arbitrary: i) (simp_all add: Let_def)

text \<open>
  C1: the index written is the position of the segment in the original list, not the
  count of the entries written. For the record whose first segment is blank and whose
  second segment is \<open>hi\<close>, both generators write a single entry, and it carries the
  index 2.
\<close>

theorem srt_index_counts_skipped_segments:
  "srt_text blank_then_hi
     = ''2'' @ [CHR 0x0A] @ ''00:00:01,000 --> 00:00:02,500'' @ [CHR 0x0A] @ ''hi'' @ [CHR 0x0A]
   \<and> VideoEnglishRecognizer_srt_text blank_then_hi
     = ''2'' @ [CHR 0x0A] @ ''00:00:01,000 --> 00:00:02,500'' @ [CHR 0x0A] @ ''hi'' @ [CHR 0x0A]
   \<and> length (srt_content 1 (tr_segments blank_then_hi)) = 1"
  by code_simp

section \<open>File discovery\<close>

lemma count_list_distinct: "distinct xs \<Longrightarrow> x \<in> set xs \<Longrightarrow> count_list xs x = 1"
  by (induction xs) (auto simp: count_list_0_iff)

lemma set_get_video_files:
  "set (get_video_files d names) =
     {os_path_join d n | n. n \<in> set names \<and> take 1 n \<noteq> ''.''
        \<and> (\<exists>ext \<in> set video_extensions. endswith n ext \<or> endswith n (upper ext))}"
  by (auto simp: get_video_files_def globbed_files_def glob_star_def)

lemma get_video_files_empty: "get_video_files d [] = []"
  by (simp add: get_video_files_def globbed_files_def glob_star_def video_extensions_def)

lemma get_video_files_distinct_sorted:
  "distinct (get_video_files d names) \<and> sorted (get_video_files d names)"
  by (simp add: get_video_files_def)

lemma lower_mp4_found:
  "''a.mp4'' \<in> set names \<Longrightarrow> os_path_join d ''a.mp4'' \<in> set (get_video_files d names)"
  unfolding set_get_video_files
  by (rule CollectI, rule exI[of _ "''a.mp4''"])
     (simp add: video_extensions_def endswith_def)

lemma upper_mp4: "upper ''.mp4'' = ''.MP4''"
  by code_simp

lemma upper_mp4_found:
  assumes "''A.MP4'' \<in> set names"
  shows "os_path_join d ''A.MP4'' \<in> set (get_video_files d names)"
proof -
  have "''.mp4'' \<in> set video_extensions"
    by (simp add: video_extensions_def)
  moreover have "endswith ''A.MP4'' (upper ''.mp4'')"
    by (simp add: upper_mp4 endswith_def)
  ultimately have "\<exists>ext \<in> set video_extensions.
      endswith ''A.MP4'' ext \<or> endswith ''A.MP4'' (upper ext)" by blast
  moreover have "take 1 ''A.MP4'' \<noteq> ''.''" by simp
  ultimately show ?thesis unfolding set_get_video_files using assms by blast
qed

lemma mp4_paths_differ: "os_path_join d ''a.mp4'' \<noteq> os_path_join d ''A.MP4''"
  by (simp add: os_path_join_def)

text \<open>
  C5: for every folder and every listing of it, file discovery returns a list without
  duplicates, sorted lexicographically, and empty when the folder is empty. The files
  returned are those whose name does not start with a dot and ends with one of the
  eight extensions in lower case or in upper case. In particular, when the folder
  holds both \<open>a.mp4\<close> and \<open>A.MP4\<close>, the two are different entries of the result and
  each occurs exactly once.
\<close>

theorem get_video_files_sorted_distinct:
  "distinct (get_video_files d names) \<and> sorted (get_video_files d names)
   \<and> get_video_files d [] = []
   \<and> set (get_video_files d names) =
       {os_path_join d n | n. n \<in> set names \<and> take 1 n \<noteq> ''.''
          \<and> (\<exists>ext \<in> set video_extensions. endswith n ext \<or> endswith n (upper ext))}
   \<and> (''a.mp4'' \<in> set names \<and> ''A.MP4'' \<in> set names \<longrightarrow>
        count_list (get_video_files d names) (os_path_join d ''a.mp4'') = 1
      \<and> count_list (get_video_files d names) (os_path_join d ''A.MP4'') = 1
      \<and> os_path_join d ''a.mp4'' \<noteq> os_path_join d ''A.MP4'')"
  using get_video_files_distinct_sorted[of d names] get_video_files_empty[of d]
    set_get_video_files[of d names] mp4_paths_differ[of d]
    count_list_distinct[OF _ lower_mp4_found, of d names]
    count_list_distinct[OF _ upper_mp4_found, of d names]
  by blast

text \<open>The folder \<open>input_videos\<close> holding \<open>A.MP4\<close> and \<open>a.mp4\<close>.\<close>

theorem get_video_files_sorted_distinct_witness:
  "''a.mp4'' \<in> set [''A.MP4'', ''a.mp4''] \<and> ''A.MP4'' \<in> set [''A.MP4'', ''a.mp4'']
   \<and> count_list (get_video_files ''input_videos'' [''A.MP4'', ''a.mp4'']) ''input_videos/a.mp4'' = 1
   \<and> count_list (get_video_files ''input_videos'' [''A.MP4'', ''a.mp4'']) ''input_videos/A.MP4'' = 1
   \<and> get_video_files ''input_videos'' [''A.MP4'', ''a.mp4'']
       = [''input_videos/A.MP4'', ''input_videos/a.mp4'']"
proof -
  have j: "os_path_join ''input_videos'' ''a.mp4'' = ''input_videos/a.mp4''"
          "os_path_join ''input_videos'' ''A.MP4'' = ''input_videos/A.MP4''"
    by (simp_all add: os_path_join_def)
  have v: "get_video_files ''input_videos'' [''A.MP4'', ''a.mp4'']
             = [''input_videos/A.MP4'', ''input_videos/a.mp4'']"
    by code_simp
  show ?thesis
    using get_video_files_sorted_distinct[of "''input_videos''" "[''A.MP4'', ''a.mp4'']"] v
    by (simp add: j)
qed

section \<open>The skip and the second run\<close>

lemma files_print [simp]: "files (print msg w) = files w"
  by (simp add: print_def)

lemma trace_print [simp]: "trace (print msg w) = trace w @ [Print msg]"
  by (simp add: print_def)

lemma exists_print [simp]: "os_path_exists (print msg w) p = os_path_exists w p"
  by (simp add: os_path_exists_def)

lemma exists_trace_update [simp]: "os_path_exists (w\<lparr>trace := t\<rparr>) p = os_path_exists w p"
  by (simp add: os_path_exists_def)


lemma skip_step:
  assumes "load_model e = None" and "already_processed w out v"
  shows "process_single_video e v out w =
     ((True, ''Already processed: '' @ path_stem v),
      w\<lparr>trace := trace w @ [Load_model, Print (''Skipping '' @ path_stem v @ '' (already processed)'')]\<rparr>)"
  using assms
  by (simp add: process_single_video_def already_processed_def Let_def print_def)







text \<open>
  C7, as amended: when the recognizer is imported and constructed without an
  exception and the three artifacts of the video exist, \<open>process_single_video\<close>
  returns \<open>True\<close> with the message \<open>Already processed\<close>, leaves every file as it was,
  and adds to the trace only the model load of the constructor and the skip message:
  neither the decoder nor the model's transcription is called.
\<close>

theorem skip_leaves_files:
  assumes "load_model e = None" and "already_processed w output_folder video_path"
  shows "fst (process_single_video e video_path output_folder w)
           = (True, ''Already processed: '' @ path_stem video_path)
       \<and> files (snd (process_single_video e video_path output_folder w)) = files w
       \<and> trace (snd (process_single_video e video_path output_folder w))
           = trace w @ [Load_model,
                        Print (''Skipping '' @ path_stem video_path @ '' (already processed)'')]"
  using skip_step[OF assms] by simp

text \<open>The video \<open>a.mp4\<close> with its three artifacts present.\<close>

theorem skip_leaves_files_witness:
  "load_model env_ok = None
   \<and> already_processed world_done ''output_transcriptions'' ''input_videos/a.mp4''
   \<and> fst (process_single_video env_ok ''input_videos/a.mp4'' ''output_transcriptions'' world_done)
        = (True, ''Already processed: a'')
   \<and> files (snd (process_single_video env_ok ''input_videos/a.mp4'' ''output_transcriptions'' world_done))
        = files world_done
   \<and> trace (snd (process_single_video env_ok ''input_videos/a.mp4'' ''output_transcriptions'' world_done))
        = [Load_model, Print ''Skipping a (already processed)'']"
proof -
  have h1: "load_model env_ok = None" by (simp add: env_ok_def)
  have h2: "already_processed world_done ''output_transcriptions'' ''input_videos/a.mp4''"
    by code_simp
  have n: "path_stem ''input_videos/a.mp4'' = ''a''" by code_simp
  have t: "trace world_done = []" by (simp add: world_done_def)
  show ?thesis using skip_leaves_files[OF h1 h2] h1 h2 by (simp add: n t)
qed

text \<open>
  C7 as stated fails: the constructor runs before the check, so with all three
  artifacts present and a model load that raises, the result is a failure pair.
\<close>

theorem skip_after_failed_model_load:
  "already_processed world_done ''output_transcriptions'' ''input_videos/a.mp4''
   \<and> fst (process_single_video env_load_fails ''input_videos/a.mp4'' ''output_transcriptions'' world_done)
        = (False, ''Error processing a.mp4: out of memory'')"
  by code_simp

section \<open>Faults after the transcription\<close>

lemma last_os_path_join: "b \<noteq> [] \<Longrightarrow> last (os_path_join a b) = last b"
  by (simp add: os_path_join_def)

lemma os_path_join_nonempty: "b \<noteq> [] \<Longrightarrow> os_path_join a b \<noteq> []"
  by (simp add: os_path_join_def)

lemma audio_path_nonempty: "audio_path_of out v \<noteq> []"
  by (simp add: audio_path_of_def os_path_join_nonempty)

lemma audio_path_not_output_path: "audio_path_of out v \<noteq> output_path_of out v"
proof
  assume "audio_path_of out v = output_path_of out v"
  then have "last (audio_path_of out v) = last (output_path_of out v)" by simp
  then show False by (simp add: audio_path_of_def output_path_of_def last_os_path_join)
qed

lemma save_keeps_files:
  "os_path_exists w p \<Longrightarrow> os_path_exists (save_transcription e r op w) p"
  by (auto simp: save_transcription_def write_file_def VideoEnglishRecognizer_generate_srt_file_def
      Let_def os_path_exists_def split: option.splits sum.splits prod.splits)

lemma files_save_cong:
  "files w' = files w \<Longrightarrow>
     files (save_transcription e r op w') = files (save_transcription e r op w)"
  by (auto simp: save_transcription_def write_file_def VideoEnglishRecognizer_generate_srt_file_def
      Let_def split: option.splits sum.splits prod.splits)

lemma process_video_unfold:
  assumes "os_path_exists w video_path"
      and "write_audiofile e video_path (audio_path_of out video_path) = None"
      and "model_transcribe e (audio_path_of out video_path) = Inr tr"
  shows "process_video e video_path out clean w =
     (let audio = audio_path_of out video_path;
          w3 = save_transcription e tr (output_path_of out video_path)
                 (after_transcription w video_path audio)
      in if clean
         then (case os_remove e audio of
                 Some msg \<Rightarrow> (Some (Failed msg video_path),
                              print (''Error occurred while processing video: '' @ msg) w3)
               | None \<Rightarrow> (Some (Succeeded video_path (output_path_of out video_path) tr),
                          print (''Temporary audio file deleted: '' @ audio)
                            (w3\<lparr>files := (files w3)(audio := None)\<rparr>)))
         else (Some (Succeeded video_path (output_path_of out video_path) tr), w3))"
proof -
  let ?audio = "audio_path_of out video_path"
  let ?w2 = "after_transcription w video_path ?audio"
  have ex: "extract_audio_from_video e video_path (Some ?audio) w =
      (Some ?audio, w\<lparr>trace := trace w @ [Write_audiofile video_path ?audio],
                       files := (files w)(?audio \<mapsto> Audio)\<rparr>)"
    using assms(2) by (simp add: extract_audio_from_video_def Let_def)
  have tr: "transcribe_audio e ?audio
        (w\<lparr>trace := trace w @ [Write_audiofile video_path ?audio],
           files := (files w)(?audio \<mapsto> Audio)\<rparr>) = (Some tr, ?w2)"
    using assms(3)
    by (simp add: transcribe_audio_def Let_def os_path_exists_def after_transcription_def)
  have "os_path_exists ?w2 ?audio"
    by (simp add: os_path_exists_def after_transcription_def)
  then have keep: "os_path_exists (save_transcription e tr (output_path_of out video_path) ?w2) ?audio"
    by (rule save_keeps_files)
  show ?thesis
    using assms(1) ex tr keep audio_path_nonempty[of out video_path]
    unfolding process_video_def Let_def audio_path_of_def output_path_of_def
    by simp
qed


lemma process_single_video_unfold:
  assumes "load_model e = None" and "\<not> already_processed w out v"
  shows "process_single_video e v out w =
     (case process_video e v out True (w\<lparr>trace := trace w @ [Load_model]\<rparr>) of
        (None, w1) \<Rightarrow>
          ((False, ''Error processing '' @ path_name v @ '': '' @ none_not_subscriptable), w1)
      | (Some (Succeeded vp output_path transcription_result), w1) \<Rightarrow>
          (case generate_srt_file e transcription_result (os_path_join out (path_stem v @ ''.srt'')) w1 of
             (True, w2) \<Rightarrow>
               ((True, ''Successfully processed: '' @ path_stem v @ '' (TXT, JSON, SRT created)''), w2)
           | (False, w2) \<Rightarrow>
               ((True, ''Successfully processed: '' @ path_stem v
                         @ '' (TXT, JSON created, SRT failed)''), w2))
      | (Some (Failed error vp), w1) \<Rightarrow>
          ((False, ''Failed to process: '' @ path_stem v @ '' - '' @ error), w1))"
  using assms
  by (auto simp: process_single_video_def already_processed_def Let_def)

lemma extract_files_cong:
  "files w' = files w \<Longrightarrow>
     fst (extract_audio_from_video e v a w') = fst (extract_audio_from_video e v a w)
   \<and> files (snd (extract_audio_from_video e v a w')) = files (snd (extract_audio_from_video e v a w))"
  by (simp add: extract_audio_from_video_def Let_def split: option.splits)

lemma transcribe_files_cong:
  "files w' = files w \<Longrightarrow>
     fst (transcribe_audio e a w') = fst (transcribe_audio e a w)
   \<and> files (snd (transcribe_audio e a w')) = files (snd (transcribe_audio e a w))"
  by (simp add: transcribe_audio_def Let_def os_path_exists_def split: sum.splits)

lemma process_video_files_cong:
  assumes "files w' = files w"
  shows "fst (process_video e v out c w') = fst (process_video e v out c w)"
proof -
  let ?a = "Some (os_path_join out (str_replace '' '' ''_'' (path_stem v) @ ''_audio.wav''))"
  let ?op = "os_path_join out (str_replace '' '' ''_'' (path_stem v) @ ''_transcription.txt'')"
  obtain r1 w1 where x: "extract_audio_from_video e v ?a w = (r1, w1)" by (cases "extract_audio_from_video e v ?a w")
  obtain r1' w1' where x': "extract_audio_from_video e v ?a w' = (r1', w1')" by (cases "extract_audio_from_video e v ?a w'")
  from extract_files_cong[OF assms, of e v ?a] x x'
  have e1: "r1' = r1" "files w1' = files w1" by simp_all
  show ?thesis
  proof (cases r1)
    case None
    then show ?thesis using x x' e1 assms
      by (simp add: process_video_def Let_def os_path_exists_def)
  next
    case (Some af)
    obtain r2 w2 where t: "transcribe_audio e af w1 = (r2, w2)" by (cases "transcribe_audio e af w1")
    obtain r2' w2' where t': "transcribe_audio e af w1' = (r2', w2')" by (cases "transcribe_audio e af w1'")
    from transcribe_files_cong[OF e1(2), of e af] t t'
    have e2: "r2' = r2" "files w2' = files w2" by simp_all
    show ?thesis
    proof (cases r2)
      case None
      then show ?thesis using x x' e1 t t' e2 Some assms
        by (simp add: process_video_def Let_def os_path_exists_def)
    next
      case (Some tr)
      have "files (save_transcription e tr ?op w2') = files (save_transcription e tr ?op w2)"
        using files_save_cong[OF e2(2)] .
      then show ?thesis using x x' e1 t t' e2 Some \<open>r1 = Some af\<close> assms
        by (auto simp: process_video_def Let_def os_path_exists_def split: option.splits)
    qed
  qed
qed

text \<open>
  C4, as amended: when the video exists, extraction and transcription succeed and
  deleting the waveform file raises, the handler of \<open>process_video\<close> prints the
  exception and returns \<open>"success": False\<close> with its text; \<open>process_single_video\<close>,
  when it reaches \<open>process_video\<close>, then reports the video as failed.
\<close>

theorem delete_failure_fails_video:
  assumes "os_path_exists w video_path"
      and "write_audiofile e video_path (audio_path_of output_dir video_path) = None"
      and "model_transcribe e (audio_path_of output_dir video_path) = Inr tr"
      and "os_remove e (audio_path_of output_dir video_path) = Some msg"
  shows "fst (process_video e video_path output_dir True w) = Some (Failed msg video_path)
       \<and> last (trace (snd (process_video e video_path output_dir True w)))
           = Print (''Error occurred while processing video: '' @ msg)
       \<and> (load_model e = None \<and> \<not> already_processed w output_dir video_path \<longrightarrow>
            fst (process_single_video e video_path output_dir w)
              = (False, ''Failed to process: '' @ path_stem video_path @ '' - '' @ msg))"
proof -
  have pv: "fst (process_video e video_path output_dir True w) = Some (Failed msg video_path)"
    and tr: "last (trace (snd (process_video e video_path output_dir True w)))
           = Print (''Error occurred while processing video: '' @ msg)"
    using assms(4) by (simp_all add: process_video_unfold[OF assms(1-3)] Let_def)
  let ?w0 = "w\<lparr>trace := trace w @ [Load_model]\<rparr>"
  have "fst (process_video e video_path output_dir True ?w0) = Some (Failed msg video_path)"
    using process_video_files_cong[of ?w0 w] pv by simp
  then have "load_model e = None \<and> \<not> already_processed w output_dir video_path \<longrightarrow>
            fst (process_single_video e video_path output_dir w)
              = (False, ''Failed to process: '' @ path_stem video_path @ '' - '' @ msg)"
    by (auto simp: process_single_video_unfold split: prod.splits)
  with pv tr show ?thesis by simp
qed


text \<open>The video \<open>a.mp4\<close> with an \<open>os.remove\<close> that is denied.\<close>

theorem delete_failure_fails_video_witness:
  "os_path_exists world_start ''input_videos/a.mp4''
   \<and> write_audiofile env_remove_denied ''input_videos/a.mp4''
        (audio_path_of ''output_transcriptions'' ''input_videos/a.mp4'') = None
   \<and> model_transcribe env_remove_denied
        (audio_path_of ''output_transcriptions'' ''input_videos/a.mp4'') = Inr blank_then_hi
   \<and> os_remove env_remove_denied
        (audio_path_of ''output_transcriptions'' ''input_videos/a.mp4'') = Some ''Permission denied''
   \<and> fst (process_video env_remove_denied ''input_videos/a.mp4'' ''output_transcriptions'' True
             world_start) = Some (Failed ''Permission denied'' ''input_videos/a.mp4'')"
proof -
  have h1: "os_path_exists world_start ''input_videos/a.mp4''"
    by (simp add: os_path_exists_def world_start_def)
  have h2: "write_audiofile env_remove_denied ''input_videos/a.mp4''
        (audio_path_of ''output_transcriptions'' ''input_videos/a.mp4'') = None"
    by (simp add: env_remove_denied_def env_ok_def)
  have h3: "model_transcribe env_remove_denied
        (audio_path_of ''output_transcriptions'' ''input_videos/a.mp4'') = Inr blank_then_hi"
    by (simp add: env_remove_denied_def env_ok_def)
  have h4: "os_remove env_remove_denied
        (audio_path_of ''output_transcriptions'' ''input_videos/a.mp4'') = Some ''Permission denied''"
    by (simp add: env_remove_denied_def env_ok_def)
  show ?thesis using delete_failure_fails_video[OF h1 h2 h3 h4] h1 h2 h3 h4 by simp
qed

text \<open>
  C4 as stated fails: with an \<open>os.remove\<close> that raises, the result for \<open>a.mp4\<close> is
  the failure pair, although the text and JSON files have been written.
\<close>

theorem delete_failure_demotes_video:
  "fst (process_single_video env_remove_denied ''input_videos/a.mp4'' ''output_transcriptions''
          world_start) = (False, ''Failed to process: a - Permission denied'')
   \<and> os_path_exists
        (snd (process_single_video env_remove_denied ''input_videos/a.mp4''
                ''output_transcriptions'' world_start))
        ''output_transcriptions/a_transcription.txt''
   \<and> os_path_exists
        (snd (process_single_video env_remove_denied ''input_videos/a.mp4''
                ''output_transcriptions'' world_start))
        ''output_transcriptions/a_transcription.json''"
  by code_simp

lemma generate_srt_file_fails: "fst (generate_srt_file e tr p w) = (open_w e p = None)"
  by (simp add: generate_srt_file_def write_file_def split: option.splits)

text \<open>
  C8: for every video that is not skipped and for which \<open>process_video\<close> reports
  success (extraction, transcription and saving went through), when writing the SRT
  file of the driver raises, so that \<open>generate_srt_file\<close> returns \<open>False\<close>,
  \<open>process_single_video\<close> still returns \<open>True\<close>, with the message that names the SRT
  failure, after printing the exception.
\<close>

theorem srt_failure_keeps_success:
  assumes "load_model e = None" and "\<not> already_processed w output_folder video_path"
      and "fst (process_video e video_path output_folder True w) = Some r" and "success r"
      and "open_w e (os_path_join output_folder (path_stem video_path @ ''.srt'')) = Some msg"
  shows "fst (process_single_video e video_path output_folder w)
           = (True, ''Successfully processed: '' @ path_stem video_path
                      @ '' (TXT, JSON created, SRT failed)'')
       \<and> last (trace (snd (process_single_video e video_path output_folder w)))
           = Print (''Failed to generate SRT file: '' @ msg)"
proof -
  let ?w0 = "w\<lparr>trace := trace w @ [Load_model]\<rparr>"
  have "fst (process_video e video_path output_folder True ?w0) = Some r"
    using process_video_files_cong[of ?w0 w] assms(3) by simp
  moreover obtain vp op tr where "r = Succeeded vp op tr"
    using assms(4) by (cases r) simp_all
  ultimately obtain w1 where
    pv: "process_video e video_path output_folder True ?w0 = (Some (Succeeded vp op tr), w1)"
    by (cases "process_video e video_path output_folder True ?w0") simp
  have "generate_srt_file e tr (os_path_join output_folder (path_stem video_path @ ''.srt'')) w1
          = (False, print (''Failed to generate SRT file: '' @ msg) w1)"
    using assms(5) by (simp add: generate_srt_file_def write_file_def)
  then show ?thesis
    using pv by (simp add: process_single_video_unfold[OF assms(1,2)])
qed

text \<open>The video \<open>a.mp4\<close> with a denied write to \<open>a.srt\<close>.\<close>

theorem srt_failure_keeps_success_witness:
  "load_model env_srt_denied = None
   \<and> \<not> already_processed world_start ''output_transcriptions'' ''input_videos/a.mp4''
   \<and> fst (process_video env_srt_denied ''input_videos/a.mp4'' ''output_transcriptions'' True
             world_start)
        = Some (Succeeded ''input_videos/a.mp4'' ''output_transcriptions/a_transcription.txt''
                  blank_then_hi)
   \<and> open_w env_srt_denied ''output_transcriptions/a.srt'' = Some ''Permission denied''
   \<and> fst (process_single_video env_srt_denied ''input_videos/a.mp4'' ''output_transcriptions''
             world_start)
        = (True, ''Successfully processed: a (TXT, JSON created, SRT failed)'')"
proof -
  have h1: "load_model env_srt_denied = None"
    by (simp add: env_srt_denied_def env_ok_def)
  have h2: "\<not> already_processed world_start ''output_transcriptions'' ''input_videos/a.mp4''"
    by code_simp
  have h3: "fst (process_video env_srt_denied ''input_videos/a.mp4'' ''output_transcriptions'' True
             world_start)
        = Some (Succeeded ''input_videos/a.mp4'' ''output_transcriptions/a_transcription.txt''
                  blank_then_hi)"
    by code_simp
  have h4: "success (Succeeded ''input_videos/a.mp4'' ''output_transcriptions/a_transcription.txt''
                  blank_then_hi)" by simp
  have n: "path_stem ''input_videos/a.mp4'' = ''a''" by code_simp
  have j: "os_path_join ''output_transcriptions'' (''a'' @ ''.srt'') = ''output_transcriptions/a.srt''"
    by code_simp
  have h5: "open_w env_srt_denied
      (os_path_join ''output_transcriptions'' (path_stem ''input_videos/a.mp4'' @ ''.srt''))
        = Some ''Permission denied''"
    unfolding n j by (simp add: env_srt_denied_def env_ok_def)
  have h5': "open_w env_srt_denied ''output_transcriptions/a.srt'' = Some ''Permission denied''"
    using h5 unfolding n j .
  show ?thesis
    using srt_failure_keeps_success[OF h1 h2 h3 h4 h5] h1 h2 h3 h5' by (simp add: n)
qed

lemma save_failure:
  assumes "open_w e (str_replace ''.txt'' ''.json'' op) \<noteq> None \<or> open_w e op \<noteq> None"
  shows "files (save_transcription e r op w) op = files w op
       \<and> (\<exists>m. Print (''Failed to save transcription results: '' @ m)
                 \<in> set (trace (save_transcription e r op w)))
       \<and> (open_w e (str_replace ''.txt'' ''.json'' op) \<noteq> None \<longrightarrow>
            files (save_transcription e r op w) = files w)"
  using assms
  by (auto simp: save_transcription_def write_file_def VideoEnglishRecognizer_generate_srt_file_def
      Let_def split: option.splits sum.splits prod.splits)


lemma save_failure_success:
  assumes "os_path_exists w video_path"
      and "write_audiofile e video_path (audio_path_of output_dir video_path) = None"
      and "model_transcribe e (audio_path_of output_dir video_path) = Inr tr"
      and "clean_audio \<longrightarrow> os_remove e (audio_path_of output_dir video_path) = None"
      and "open_w e (str_replace ''.txt'' ''.json'' (output_path_of output_dir video_path)) \<noteq> None
           \<or> open_w e (output_path_of output_dir video_path) \<noteq> None"
  shows "fst (process_video e video_path output_dir clean_audio w)
           = Some (Succeeded video_path (output_path_of output_dir video_path) tr)
       \<and> files (snd (process_video e video_path output_dir clean_audio w))
             (output_path_of output_dir video_path)
           = files w (output_path_of output_dir video_path)
       \<and> (\<exists>m. Print (''Failed to save transcription results: '' @ m)
                 \<in> set (trace (snd (process_video e video_path output_dir clean_audio w))))
       \<and> (open_w e (str_replace ''.txt'' ''.json'' (output_path_of output_dir video_path)) \<noteq> None
            \<longrightarrow> (\<forall>p. p \<noteq> audio_path_of output_dir video_path \<longrightarrow>
                   files (snd (process_video e video_path output_dir clean_audio w)) p = files w p))"
proof -
  let ?audio = "audio_path_of output_dir video_path"
  let ?op = "output_path_of output_dir video_path"
  let ?w2 = "after_transcription w video_path ?audio"
  let ?w3 = "save_transcription e tr ?op ?w2"
  from save_failure[OF assms(5), of tr ?w2]
  have s1: "files ?w3 ?op = files ?w2 ?op"
    and s2: "\<exists>m. Print (''Failed to save transcription results: '' @ m) \<in> set (trace ?w3)"
    and s3: "open_w e (str_replace ''.txt'' ''.json'' ?op) \<noteq> None \<longrightarrow> files ?w3 = files ?w2"
    by blast+
  have w2: "files ?w2 ?op = files w ?op" "\<forall>p. p \<noteq> ?audio \<longrightarrow> files ?w2 p = files w p"
    using audio_path_not_output_path[of output_dir video_path]
    by (auto simp: after_transcription_def)
  show ?thesis
  proof (cases clean_audio)
    case True
    with assms(4) have rm: "os_remove e ?audio = None" by simp
    have pv: "process_video e video_path output_dir clean_audio w =
        (Some (Succeeded video_path ?op tr),
         print (''Temporary audio file deleted: '' @ ?audio) (?w3\<lparr>files := (files ?w3)(?audio := None)\<rparr>))"
      using True rm by (simp add: process_video_unfold[OF assms(1-3)] Let_def)
    show ?thesis
      unfolding pv using s1 s2 s3 w2 audio_path_not_output_path[of output_dir video_path]
      by auto
  next
    case False
    have pv: "process_video e video_path output_dir clean_audio w =
        (Some (Succeeded video_path ?op tr), ?w3)"
      using False by (simp add: process_video_unfold[OF assms(1-3)] Let_def)
    show ?thesis
      unfolding pv using s1 s2 s3 w2 by auto
  qed
qed

lemma json_denied_run:
  "fst (process_single_video env_json_denied ''input_videos/a.mp4'' ''output_transcriptions''
          world_start) = (True, ''Successfully processed: a (TXT, JSON, SRT created)'')"
  "\<not> os_path_exists world_after_json_denied ''output_transcriptions/a_transcription.txt''"
  "\<not> os_path_exists world_after_json_denied ''output_transcriptions/a_transcription.json''"
  by code_simp+

text \<open>
  C9: when writing the JSON file or the text file raises, \<open>save_transcription\<close> only
  prints the exception, and \<open>process_video\<close> still returns \<open>"success": True\<close> (the
  video exists, extraction and transcription succeed, the deletion does not raise).
  The text file is then not written, and when it is the JSON write that raises no
  artifact is written at all. So a success result does not guarantee the artifacts:
  for \<open>a.mp4\<close> with a denied JSON write the driver reports
  \<open>TXT, JSON, SRT created\<close> while neither the text nor the JSON file exists.
\<close>

theorem save_failure_keeps_success:
  assumes "os_path_exists w video_path"
      and "write_audiofile e video_path (audio_path_of output_dir video_path) = None"
      and "model_transcribe e (audio_path_of output_dir video_path) = Inr tr"
      and "clean_audio \<longrightarrow> os_remove e (audio_path_of output_dir video_path) = None"
      and "open_w e (str_replace ''.txt'' ''.json'' (output_path_of output_dir video_path)) \<noteq> None
           \<or> open_w e (output_path_of output_dir video_path) \<noteq> None"
  shows "fst (process_video e video_path output_dir clean_audio w)
           = Some (Succeeded video_path (output_path_of output_dir video_path) tr)
       \<and> success (Succeeded video_path (output_path_of output_dir video_path) tr)
       \<and> files (snd (process_video e video_path output_dir clean_audio w))
             (output_path_of output_dir video_path)
           = files w (output_path_of output_dir video_path)
       \<and> (\<exists>m. Print (''Failed to save transcription results: '' @ m)
                 \<in> set (trace (snd (process_video e video_path output_dir clean_audio w))))
       \<and> (open_w e (str_replace ''.txt'' ''.json'' (output_path_of output_dir video_path)) \<noteq> None
            \<longrightarrow> (\<forall>p. p \<noteq> audio_path_of output_dir video_path \<longrightarrow>
                   files (snd (process_video e video_path output_dir clean_audio w)) p = files w p))
       \<and> fst (process_single_video env_json_denied ''input_videos/a.mp4'' ''output_transcriptions''
                world_start) = (True, ''Successfully processed: a (TXT, JSON, SRT created)'')
       \<and> \<not> os_path_exists world_after_json_denied ''output_transcriptions/a_transcription.txt''
       \<and> \<not> os_path_exists world_after_json_denied ''output_transcriptions/a_transcription.json''"
  using save_failure_success[OF assms] json_denied_run by simp

text \<open>The video \<open>a.mp4\<close> with a denied write to the JSON file.\<close>

theorem save_failure_keeps_success_witness:
  "os_path_exists world_start ''input_videos/a.mp4''
   \<and> write_audiofile env_json_denied ''input_videos/a.mp4''
        (audio_path_of ''output_transcriptions'' ''input_videos/a.mp4'') = None
   \<and> model_transcribe env_json_denied
        (audio_path_of ''output_transcriptions'' ''input_videos/a.mp4'') = Inr blank_then_hi
   \<and> os_remove env_json_denied
        (audio_path_of ''output_transcriptions'' ''input_videos/a.mp4'') = None
   \<and> open_w env_json_denied ''output_transcriptions/a_transcription.json'' = Some ''Permission denied''
   \<and> fst (process_video env_json_denied ''input_videos/a.mp4'' ''output_transcriptions'' True
             world_start)
        = Some (Succeeded ''input_videos/a.mp4'' ''output_transcriptions/a_transcription.txt''
                  blank_then_hi)
   \<and> files (snd (process_video env_json_denied ''input_videos/a.mp4'' ''output_transcriptions''
                    True world_start)) ''output_transcriptions/a_transcription.txt'' = None
   \<and> files (snd (process_video env_json_denied ''input_videos/a.mp4'' ''output_transcriptions''
                    True world_start)) ''output_transcriptions/a_transcription.json'' = None"
proof -
  have op: "output_path_of ''output_transcriptions'' ''input_videos/a.mp4''
              = ''output_transcriptions/a_transcription.txt''"
    by code_simp
  have js: "str_replace ''.txt'' ''.json'' ''output_transcriptions/a_transcription.txt''
              = ''output_transcriptions/a_transcription.json''"
    by code_simp
  have au: "audio_path_of ''output_transcriptions'' ''input_videos/a.mp4''
              = ''output_transcriptions/a_audio.wav''"
    by code_simp
  have h1: "os_path_exists world_start ''input_videos/a.mp4''"
    by (simp add: os_path_exists_def world_start_def)
  have h2: "write_audiofile env_json_denied ''input_videos/a.mp4''
        (audio_path_of ''output_transcriptions'' ''input_videos/a.mp4'') = None"
    by (simp add: env_json_denied_def env_ok_def)
  have h3: "model_transcribe env_json_denied
        (audio_path_of ''output_transcriptions'' ''input_videos/a.mp4'') = Inr blank_then_hi"
    by (simp add: env_json_denied_def env_ok_def)
  have h4: "os_remove env_json_denied
        (audio_path_of ''output_transcriptions'' ''input_videos/a.mp4'') = None"
    by (simp add: env_json_denied_def env_ok_def)
  have h4': "True \<longrightarrow> os_remove env_json_denied
        (audio_path_of ''output_transcriptions'' ''input_videos/a.mp4'') = None"
    using h4 by simp
  have o: "open_w env_json_denied ''output_transcriptions/a_transcription.json''
             = Some ''Permission denied''"
    by (simp add: env_json_denied_def env_ok_def)
  have h5: "open_w env_json_denied (str_replace ''.txt'' ''.json''
              (output_path_of ''output_transcriptions'' ''input_videos/a.mp4'')) \<noteq> None
           \<or> open_w env_json_denied
                (output_path_of ''output_transcriptions'' ''input_videos/a.mp4'') \<noteq> None"
    by (simp add: op js o)
  have f: "files world_start ''output_transcriptions/a_transcription.txt'' = None"
          "files world_start ''output_transcriptions/a_transcription.json'' = None"
    by (simp_all add: world_start_def)
  have d: "''output_transcriptions/a_transcription.json'' \<noteq> ''output_transcriptions/a_audio.wav''"
    by simp
  from save_failure_keeps_success[OF h1 h2 h3 h4' h5]
  have r: "fst (process_video env_json_denied ''input_videos/a.mp4'' ''output_transcriptions'' True
             world_start)
        = Some (Succeeded ''input_videos/a.mp4'' ''output_transcriptions/a_transcription.txt''
                  blank_then_hi)"
    and t: "files (snd (process_video env_json_denied ''input_videos/a.mp4'' ''output_transcriptions''
                    True world_start)) ''output_transcriptions/a_transcription.txt'' = None"
    and j: "files (snd (process_video env_json_denied ''input_videos/a.mp4'' ''output_transcriptions''
                    True world_start)) ''output_transcriptions/a_transcription.json'' = None"
    using d by (simp_all add: op js au o f)
  show ?thesis using h1 h2 h3 h4 o r t j by simp
qed

text \<open>
  C2: the stems differ when the name holds a space. For \<open>my video.mp4\<close> the run
  succeeds; the text and JSON files and an SRT file are written by the recognizer
  under the stem \<open>my_video\<close>, the driver writes a second SRT file under the stem
  \<open>my video\<close>, and the two files that the skip check looks for under \<open>my video\<close> do
  not exist, so the video does not count as processed.
\<close>

theorem space_in_name_splits_artifacts:
  "fst (process_single_video env_ok ''input_videos/my video.mp4'' ''output_transcriptions''
          world_start) = (True, ''Successfully processed: my video (TXT, JSON, SRT created)'')
   \<and> os_path_exists world_after_my_video ''output_transcriptions/my_video_transcription.txt''
   \<and> os_path_exists world_after_my_video ''output_transcriptions/my_video_transcription.json''
   \<and> os_path_exists world_after_my_video ''output_transcriptions/my_video.srt''
   \<and> os_path_exists world_after_my_video ''output_transcriptions/my video.srt''
   \<and> \<not> os_path_exists world_after_my_video ''output_transcriptions/my video_transcription.txt''
   \<and> \<not> os_path_exists world_after_my_video ''output_transcriptions/my video_transcription.json''
   \<and> \<not> already_processed world_after_my_video ''output_transcriptions''
          ''input_videos/my video.mp4''"
  by code_simp

end
